theory Spec2Isabelle
  imports Main "HOL-Library.AList"
begin

section \<open>Python values and the library functions the program calls\<close>

text \<open>
  The program is dynamically typed. A value is one of the values that \<^verbatim>\<open>yaml.safe_load\<close>
  and \<^verbatim>\<open>json.loads\<close> produce. A \<^verbatim>\<open>str\<close> is a list of characters (code points
  below 256), a \<^verbatim>\<open>dict\<close> an association list in insertion order with \<^verbatim>\<open>str\<close> keys,
  a \<^verbatim>\<open>float\<close> is carried by its \<^verbatim>\<open>repr\<close>. \<open>PObj tp s r\<close> is an object of any
  other type, with the name \<open>tp\<close> of the type as the interpreter prints it
  (\<^verbatim>\<open>datetime.date\<close> for a date read from YAML, \<^verbatim>\<open>bytes\<close>, \<^verbatim>\<open>set\<close>), its \<^verbatim>\<open>str\<close> \<open>s\<close>
  and its \<^verbatim>\<open>repr\<close> \<open>r\<close>: it is no mapping and \<^verbatim>\<open>json\<close> cannot serialise it.
\<close>

datatype pyval =
    PNone
  | PBool bool
  | PInt int
  | PFloat string
  | PStr string
  | PList "pyval list"
  | PDict "(string \<times> pyval) list"
  | PObj string string string

text \<open>
  An instance of \<^verbatim>\<open>Exception\<close>, which is what \<^verbatim>\<open>except Exception\<close> catches: its class
  name and its \<^verbatim>\<open>str\<close>. An interrupt of the process (\<^verbatim>\<open>KeyboardInterrupt\<close>,
  \<^verbatim>\<open>SystemExit\<close>) is no such instance and is not part of the model.
\<close>

datatype exn = PyExc string string

fun exc_str :: "exn \<Rightarrow> string" where
  "exc_str (PyExc cls msg) = msg"

text \<open>
  \<open>last_index c s\<close> is \<^verbatim>\<open>s.rfind(c)\<close>, with \<open>None\<close> for \<open>-1\<close>.
\<close>

fun last_index :: "char \<Rightarrow> string \<Rightarrow> nat option" where
  "last_index c [] = None"
| "last_index c (x # xs) =
     (case last_index c xs of
        Some i \<Rightarrow> Some (Suc i)
      | None \<Rightarrow> (if x = c then Some 0 else None))"

text \<open>
  The name of a type in the messages of the interpreter (\<^verbatim>\<open>'datetime.date' object ...\<close>),
  and the \<^verbatim>\<open>__name__\<close> of the class, which is what follows the last dot of that name
  (\<^verbatim>\<open>date\<close>).
\<close>

fun type_name :: "pyval \<Rightarrow> string" where
  "type_name PNone = ''NoneType''"
| "type_name (PBool b) = ''bool''"
| "type_name (PInt i) = ''int''"
| "type_name (PFloat r) = ''float''"
| "type_name (PStr s) = ''str''"
| "type_name (PList xs) = ''list''"
| "type_name (PDict kvs) = ''dict''"
| "type_name (PObj tp s r) = tp"

definition class_name :: "pyval \<Rightarrow> string" where
  "class_name v =
     (case last_index CHR ''.'' (type_name v) of
        None \<Rightarrow> type_name v
      | Some i \<Rightarrow> drop (Suc i) (type_name v))"

text \<open>Truth value of an object, as \<^verbatim>\<open>if analysis_result:\<close> tests it.\<close>

fun truthy :: "pyval \<Rightarrow> bool" where
  "truthy PNone = False"
| "truthy (PBool b) = b"
| "truthy (PInt i) = (i \<noteq> 0)"
| "truthy (PFloat r) = (r \<noteq> ''0.0'' \<and> r \<noteq> ''-0.0'')"
| "truthy (PStr s) = (s \<noteq> [])"
| "truthy (PList xs) = (xs \<noteq> [])"
| "truthy (PDict kvs) = (kvs \<noteq> [])"
| "truthy (PObj tp s r) = True"

subsection \<open>Strings\<close>

definition endswith :: "string \<Rightarrow> string \<Rightarrow> bool" where
  "endswith s suf = (length suf \<le> length s \<and> drop (length s - length suf) s = suf)"

text \<open>\<^verbatim>\<open>str.isspace\<close>: at least one character, and every character is whitespace.\<close>

definition is_space_char :: "char \<Rightarrow> bool" where
  "is_space_char c =
     (let n = of_char c :: nat
      in (9 \<le> n \<and> n \<le> 13) \<or> (28 \<le> n \<and> n \<le> 32) \<or> n = 133 \<or> n = 160)"

definition isspace :: "string \<Rightarrow> bool" where
  "isspace s = (s \<noteq> [] \<and> list_all is_space_char s)"

fun join :: "string \<Rightarrow> string list \<Rightarrow> string" where
  "join sep [] = []"
| "join sep [s] = s"
| "join sep (s # s' # ss) = s @ sep @ join sep (s' # ss)"

text \<open>The decimal digit \<open>d < 10\<close> and the hexadecimal digit \<open>d < 16\<close>.\<close>

definition digit_char :: "nat \<Rightarrow> char" where
  "digit_char d = ''0123456789'' ! d"

fun nat_str :: "nat \<Rightarrow> string" where
  "nat_str n = (if n < 10 then [digit_char n] else nat_str (n div 10) @ [digit_char (n mod 10)])"

declare nat_str.simps [simp del]

definition int_str :: "int \<Rightarrow> string" where
  "int_str i = (if i < 0 then CHR ''-'' # nat_str (nat (- i)) else nat_str (nat i))"

definition hex_digit :: "nat \<Rightarrow> char" where
  "hex_digit d = ''0123456789abcdef'' ! d"

definition hex2 :: "char \<Rightarrow> string" where
  "hex2 c = (let n = of_char c :: nat in [hex_digit (n div 16), hex_digit (n mod 16)])"

subsection \<open>\<^verbatim>\<open>repr\<close> and \<^verbatim>\<open>str\<close>, as an f-string renders a value\<close>

definition printable :: "char \<Rightarrow> bool" where
  "printable c =
     (let n = of_char c :: nat
      in (32 \<le> n \<and> n \<le> 126) \<or> (161 \<le> n \<and> n \<noteq> 173))"

definition repr_char :: "char \<Rightarrow> char \<Rightarrow> string" where
  "repr_char q c =
     (if c = CHR 0x5C then [CHR 0x5C, CHR 0x5C]
      else if c = q then [CHR 0x5C, q]
      else if c = CHR 0x09 then [CHR 0x5C, CHR ''t'']
      else if c = CHR 0x0A then [CHR 0x5C, CHR ''n'']
      else if c = CHR 0x0D then [CHR 0x5C, CHR ''r'']
      else if printable c then [c]
      else [CHR 0x5C, CHR ''x''] @ hex2 c)"

definition repr_str :: "string \<Rightarrow> string" where
  "repr_str s =
     (let q = (if CHR 0x27 \<in> set s \<and> CHR 0x22 \<notin> set s then CHR 0x22 else CHR 0x27)
      in [q] @ concat (map (repr_char q) s) @ [q])"

fun py_repr :: "pyval \<Rightarrow> string"
and py_repr_list :: "pyval list \<Rightarrow> string list"
and py_repr_items :: "(string \<times> pyval) list \<Rightarrow> string list" where
  "py_repr PNone = ''None''"
| "py_repr (PBool b) = (if b then ''True'' else ''False'')"
| "py_repr (PInt i) = int_str i"
| "py_repr (PFloat r) = r"
| "py_repr (PStr s) = repr_str s"
| "py_repr (PList xs) = ''['' @ join '', '' (py_repr_list xs) @ '']''"
| "py_repr (PDict kvs) = ''{'' @ join '', '' (py_repr_items kvs) @ ''}''"
| "py_repr (PObj tp s r) = r"
| "py_repr_list [] = []"
| "py_repr_list (x # xs) = py_repr x # py_repr_list xs"
| "py_repr_items [] = []"
| "py_repr_items (kv # kvs) = (repr_str (fst kv) @ '': '' @ py_repr (snd kv)) # py_repr_items kvs"

fun py_str :: "pyval \<Rightarrow> string" where
  "py_str (PStr s) = s"
| "py_str (PObj tp s r) = s"
| "py_str v = py_repr v"

subsection \<open>\<^verbatim>\<open>json.dumps(obj, indent=n)\<close>\<close>

definition json_char :: "char \<Rightarrow> string" where
  "json_char c =
     (if c = CHR 0x22 then [CHR 0x5C, CHR 0x22]
      else if c = CHR 0x5C then [CHR 0x5C, CHR 0x5C]
      else if c = CHR 0x0A then [CHR 0x5C, CHR ''n'']
      else if c = CHR 0x0D then [CHR 0x5C, CHR ''r'']
      else if c = CHR 0x09 then [CHR 0x5C, CHR ''t'']
      else if c = CHR 0x08 then [CHR 0x5C, CHR ''b'']
      else if c = CHR 0x0C then [CHR 0x5C, CHR ''f'']
      else if 32 \<le> (of_char c :: nat) \<and> (of_char c :: nat) \<le> 126 then [c]
      else [CHR 0x5C, CHR ''u'', CHR ''0'', CHR ''0''] @ hex2 c)"

definition json_str :: "string \<Rightarrow> string" where
  "json_str s = [CHR 0x22] @ concat (map json_char s) @ [CHR 0x22]"

definition json_float :: "string \<Rightarrow> string" where
  "json_float r =
     (if r = ''nan'' then ''NaN''
      else if r = ''inf'' then ''Infinity''
      else if r = ''-inf'' then ''-Infinity''
      else r)"

text \<open>A line break followed by the indentation of nesting level \<open>lvl\<close>.\<close>

definition newline_indent :: "nat \<Rightarrow> nat \<Rightarrow> string" where
  "newline_indent ind lvl = CHR 0x0A # replicate (ind * lvl) CHR '' ''"

fun json_enc :: "nat \<Rightarrow> nat \<Rightarrow> pyval \<Rightarrow> exn + string"
and json_enc_list :: "nat \<Rightarrow> nat \<Rightarrow> pyval list \<Rightarrow> exn + string list"
and json_enc_items :: "nat \<Rightarrow> nat \<Rightarrow> (string \<times> pyval) list \<Rightarrow> exn + string list" where
  "json_enc ind lvl PNone = Inr ''null''"
| "json_enc ind lvl (PBool b) = Inr (if b then ''true'' else ''false'')"
| "json_enc ind lvl (PInt i) = Inr (int_str i)"
| "json_enc ind lvl (PFloat r) = Inr (json_float r)"
| "json_enc ind lvl (PStr s) = Inr (json_str s)"
| "json_enc ind lvl (PList xs) =
     (if xs = [] then Inr ''[]''
      else case json_enc_list ind (Suc lvl) xs of
             Inl e \<Rightarrow> Inl e
           | Inr ss \<Rightarrow>
               Inr (''['' @ newline_indent ind (Suc lvl)
                    @ join ('','' @ newline_indent ind (Suc lvl)) ss
                    @ newline_indent ind lvl @ '']''))"
| "json_enc ind lvl (PDict kvs) =
     (if kvs = [] then Inr ''{}''
      else case json_enc_items ind (Suc lvl) kvs of
             Inl e \<Rightarrow> Inl e
           | Inr ss \<Rightarrow>
               Inr (''{'' @ newline_indent ind (Suc lvl)
                    @ join ('','' @ newline_indent ind (Suc lvl)) ss
                    @ newline_indent ind lvl @ ''}''))"
| "json_enc ind lvl (PObj tp s r) =
     Inl (PyExc ''TypeError''
       (''Object of type '' @ class_name (PObj tp s r) @ '' is not JSON serializable''))"
| "json_enc_list ind lvl [] = Inr []"
| "json_enc_list ind lvl (x # xs) =
     (case json_enc ind lvl x of
        Inl e \<Rightarrow> Inl e
      | Inr s \<Rightarrow> (case json_enc_list ind lvl xs of Inl e \<Rightarrow> Inl e | Inr ss \<Rightarrow> Inr (s # ss)))"
| "json_enc_items ind lvl [] = Inr []"
| "json_enc_items ind lvl (kv # kvs) =
     (case json_enc ind lvl (snd kv) of
        Inl e \<Rightarrow> Inl e
      | Inr s \<Rightarrow>
          (case json_enc_items ind lvl kvs of
             Inl e \<Rightarrow> Inl e
           | Inr ss \<Rightarrow> Inr ((json_str (fst kv) @ '': '' @ s) # ss)))"

definition json_dumps :: "nat \<Rightarrow> pyval \<Rightarrow> exn + string" where
  "json_dumps ind v = json_enc ind 0 v"

subsection \<open>Item assignment, \<^verbatim>\<open>dict.get\<close>, paths\<close>

text \<open>\<^verbatim>\<open>obj[key] = value\<close> for a \<^verbatim>\<open>str\<close> key: only a \<^verbatim>\<open>dict\<close> accepts it.\<close>

fun setitem :: "pyval \<Rightarrow> string \<Rightarrow> pyval \<Rightarrow> exn + pyval" where
  "setitem (PDict kvs) k v = Inr (PDict (AList.update k v kvs))"
| "setitem (PList xs) k v =
     Inl (PyExc ''TypeError'' ''list indices must be integers or slices, not str'')"
| "setitem obj k v =
     Inl (PyExc ''TypeError''
       ([CHR 0x27] @ type_name obj @ [CHR 0x27] @ '' object does not support item assignment''))"

text \<open>\<^verbatim>\<open>job_desc.get(key)\<close>: the value, or \<^verbatim>\<open>None\<close> when the key is absent.\<close>

fun dict_get :: "pyval \<Rightarrow> string \<Rightarrow> exn + pyval" where
  "dict_get (PDict kvs) k = Inr (case map_of kvs k of None \<Rightarrow> PNone | Some v \<Rightarrow> v)"
| "dict_get obj k =
     Inl (PyExc ''AttributeError''
       ([CHR 0x27] @ type_name obj @ [CHR 0x27] @ '' object has no attribute ''
        @ [CHR 0x27] @ ''get'' @ [CHR 0x27]))"

text \<open>\<^verbatim>\<open>os.path.join(a, b)\<close> and the root of \<^verbatim>\<open>os.path.splitext(p)\<close>, POSIX flavour.\<close>

definition path_join :: "string \<Rightarrow> string \<Rightarrow> string" where
  "path_join a b =
     (if b \<noteq> [] \<and> hd b = CHR ''/'' then b
      else if a = [] \<or> last a = CHR ''/'' then a @ b
      else a @ ''/'' @ b)"

definition splitext_root :: "string \<Rightarrow> string" where
  "splitext_root p =
     (let start = (case last_index CHR ''/'' p of None \<Rightarrow> 0 | Some i \<Rightarrow> Suc i)
      in case last_index CHR ''.'' p of
           None \<Rightarrow> p
         | Some d \<Rightarrow>
             (if start \<le> d \<and> list_ex (\<lambda>c. c \<noteq> CHR ''.'') (take (d - start) (drop start p))
              then take d p else p))"

section \<open>The outside world\<close>

text \<open>
  Every call that leaves the process is recorded, in order, in a trace. \<open>OpenRead\<close>,
  \<open>OpenWrite\<close>, \<open>MakeDirs\<close>, \<open>ListDir\<close>, \<open>LoadDotenv\<close> and \<open>ChatCreate\<close> record that
  the call was made, whatever its outcome; \<open>Dumped path content\<close> records that
  \<^verbatim>\<open>json.dump\<close> has completed, so that the file at \<open>path\<close> holds \<open>content\<close>;
  \<open>Printed line\<close> records that \<^verbatim>\<open>print\<close> has written \<open>line\<close> to standard output.
  \<open>ChatCreate prompt\<close> is the call of \<^verbatim>\<open>client.chat.completions.create\<close> by the program,
  \<open>HttpRequest prompt\<close> one request that the client library sends to the endpoint for it.
\<close>

datatype event =
    Printed string
  | MakeDirs string
  | ListDir string
  | OpenRead string
  | LoadDotenv
  | ChatCreate string
  | HttpRequest string
  | OpenWrite string
  | Dumped string string

type_synonym trace = "event list"

text \<open>The outcome of a call: what it returns or raises, and the trace after it.\<close>

type_synonym 'a result = "(exn + 'a) \<times> trace"

text \<open>
  \<^verbatim>\<open>page.extract_text()\<close> of one page: it raises, or returns \<^verbatim>\<open>None\<close> or a \<^verbatim>\<open>str\<close>.
\<close>

type_synonym page = "exn + string option"

text \<open>
  The answer to one request of the \<^verbatim>\<open>openai\<close> client library: the \<^verbatim>\<open>message.content\<close> of
  each of the \<^verbatim>\<open>choices\<close> of the response; or a failure that the library retries (a
  connection error, a timeout, a response with status 408, 409, 429 or 500 and above), with
  the exception that the library raises when it gives up; or a failure that it does not
  retry (any other error status, such as 401 for a key that the endpoint rejects).
\<close>

datatype http_outcome =
    Answered "string option list"
  | Retryable exn
  | Fatal exn

text \<open>
  What the operating system, the libraries and the inference endpoint answer. An answer
  may depend on everything that happened before (the trace at the time of the call).
  \<^item> \<open>open_read\<close>: \<^verbatim>\<open>open(path, 'r')\<close> or \<^verbatim>\<open>open(path, 'rb')\<close>, giving the file's data;
  \<^item> \<open>pdf_reader\<close>: \<^verbatim>\<open>PyPDF2.PdfReader(file)\<close> and its \<^verbatim>\<open>pages\<close>;
  \<^item> \<open>read_text\<close>: \<^verbatim>\<open>file.read()\<close> of a text file (decoding may raise);
  \<^item> \<open>openai_client\<close>: the constructor \<^verbatim>\<open>OpenAI(api_key=...)\<close>, \<open>Some e\<close> when it raises;
  \<^item> \<open>http_post\<close>: one request to the chat completions endpoint, with the key of the
    client and the prompt;
  \<^item> \<open>stdout_write\<close>: \<^verbatim>\<open>print(line)\<close>, \<open>Some e\<close> when it raises (a \<^verbatim>\<open>UnicodeEncodeError\<close> for
    a character that the encoding of standard output lacks, an \<^verbatim>\<open>OSError\<close> of the stream);
  \<^item> \<open>open_write\<close>: \<^verbatim>\<open>open(path, 'w')\<close>; \<open>file_write\<close>: writing the serialised text to the
    open file and closing it.
\<close>

record env =
  os_path_exists :: "trace \<Rightarrow> string \<Rightarrow> bool"
  os_makedirs :: "trace \<Rightarrow> string \<Rightarrow> exn option"
  os_listdir :: "trace \<Rightarrow> string \<Rightarrow> exn + string list"
  open_read :: "trace \<Rightarrow> string \<Rightarrow> exn + string"
  pdf_reader :: "string \<Rightarrow> exn + page list"
  read_text :: "string \<Rightarrow> exn + string"
  yaml_safe_load :: "string \<Rightarrow> exn + pyval"
  load_dotenv :: "trace \<Rightarrow> exn option"
  os_getenv :: "trace \<Rightarrow> string \<Rightarrow> string option"
  openai_client :: "string option \<Rightarrow> exn option"
  http_post :: "trace \<Rightarrow> string option \<Rightarrow> string \<Rightarrow> http_outcome"
  json_loads :: "string \<Rightarrow> exn + pyval"
  open_write :: "trace \<Rightarrow> string \<Rightarrow> exn option"
  file_write :: "trace \<Rightarrow> string \<Rightarrow> string \<Rightarrow> exn option"
  stdout_write :: "trace \<Rightarrow> string \<Rightarrow> exn option"

text \<open>
  The reports a trace has written, as (path, content); the prompts of the calls of
  \<^verbatim>\<open>client.chat.completions.create\<close>; the prompts of the requests sent to the endpoint; the
  files opened; the lines printed.
\<close>

fun reports_written :: "trace \<Rightarrow> (string \<times> string) list" where
  "reports_written [] = []"
| "reports_written (Dumped p c # t) = (p, c) # reports_written t"
| "reports_written (ev # t) = reports_written t"

fun chat_calls :: "trace \<Rightarrow> string list" where
  "chat_calls [] = []"
| "chat_calls (ChatCreate p # t) = p # chat_calls t"
| "chat_calls (ev # t) = chat_calls t"

fun http_requests :: "trace \<Rightarrow> string list" where
  "http_requests [] = []"
| "http_requests (HttpRequest p # t) = p # http_requests t"
| "http_requests (ev # t) = http_requests t"

fun printed :: "trace \<Rightarrow> string list" where
  "printed [] = []"
| "printed (Printed line # t) = line # printed t"
| "printed (ev # t) = printed t"

fun files_opened :: "trace \<Rightarrow> string list" where
  "files_opened [] = []"
| "files_opened (OpenRead p # t) = p # files_opened t"
| "files_opened (OpenWrite p # t) = p # files_opened t"
| "files_opened (ev # t) = files_opened t"

section \<open>The program\<close>

text \<open>\<^verbatim>\<open>print(line)\<close>: the line is written, or the exception of the stream is raised.\<close>

definition print_line :: "env \<Rightarrow> string \<Rightarrow> trace \<Rightarrow> unit result" where
  "print_line E line t =
     (case stdout_write E t line of
        Some e \<Rightarrow> (Inl e, t)
      | None \<Rightarrow> (Inr (), t @ [Printed line]))"

subsection \<open>\<^verbatim>\<open>load_job_description\<close>\<close>

definition load_job_description :: "env \<Rightarrow> string \<Rightarrow> trace \<Rightarrow> pyval result" where
  "load_job_description E filepath t =
     (case open_read E t filepath of
        Inl e \<Rightarrow> (Inl e, t @ [OpenRead filepath])
      | Inr data \<Rightarrow> (yaml_safe_load E data, t @ [OpenRead filepath]))"

subsection \<open>\<^verbatim>\<open>extract_text_from_resume\<close>\<close>

text \<open>\<^verbatim>\<open>page.extract_text() or ""\<close>\<close>

fun or_empty :: "string option \<Rightarrow> string" where
  "or_empty None = []"
| "or_empty (Some s) = s"

text \<open>\<^verbatim>\<open>for page in reader.pages: text += page.extract_text() or ""\<close>\<close>

fun extract_pages :: "page list \<Rightarrow> string \<Rightarrow> exn + string" where
  "extract_pages [] text = Inr text"
| "extract_pages (Inl e # pages) text = Inl e"
| "extract_pages (Inr r # pages) text = extract_pages pages (text @ or_empty r)"

definition extract_text_from_resume :: "env \<Rightarrow> string \<Rightarrow> trace \<Rightarrow> string result" where
  "extract_text_from_resume E filepath t =
     (if endswith filepath ''.pdf'' then
        (case open_read E t filepath of
           Inl e \<Rightarrow> (Inl e, t @ [OpenRead filepath])
         | Inr data \<Rightarrow>
             (case pdf_reader E data of
                Inl e \<Rightarrow> (Inl e, t @ [OpenRead filepath])
              | Inr pages \<Rightarrow> (extract_pages pages [], t @ [OpenRead filepath])))
      else if endswith filepath ''.txt'' then
        (case open_read E t filepath of
           Inl e \<Rightarrow> (Inl e, t @ [OpenRead filepath])
         | Inr data \<Rightarrow> (read_text E data, t @ [OpenRead filepath]))
      else (Inr [], t))"

subsection \<open>\<^verbatim>\<open>create_llm_prompt\<close>\<close>

text \<open>
  The literal text of the two templates, line by line as the source has it (with its
  indentation and its trailing blanks). \<open>prompt_text_1\<close> to \<open>prompt_text_7\<close> are the
  pieces of the f-string between its six replacement fields.
\<close>

definition json_format_instructions :: string where
  \<open>json_format_instructions = concat
    [''\<newline>'',
     ''    {\<newline>'',
     ''        "matched_required_skills": [],\<newline>'',
     ''        "missing_required_skills": [],\<newline>'',
     ''        "matched_optional_skills": [],\<newline>'',
     ''        "education_match": "Yes/No/Partial",\<newline>'',
     ''        "experience_match": "Yes/No",\<newline>'',
     ''        "keywords_matched": [],\<newline>'',
     ''        "soft_skills_match": "A brief analysis of soft skills match.",\<newline>'',
     ''        "resume_summary": "A 2-3 sentence summary of the resume.",\<newline>'',
     ''        "match_score": 0.0,\<newline>'',
     ''        "city_tier_match": "Yes/No/Not Applicable",\<newline>'',
     ''        "longest_tenure_months": 0,\<newline>'',
     ''        "final_score": 0\<newline>'',
     ''    }\<newline>'',
     ''    '']\<close>

definition prompt_text_1 :: string where
  \<open>prompt_text_1 = concat
    [''\<newline>'',
     ''    Analyze the following resume against the provided job description for an IT role in India. \<newline>'',
     ''    Your task is to act as an expert IT recruiter and return a JSON object with a detailed analysis.\<newline>'',
     ''\<newline>'',
     ''    EVALUATION CRITERIA (IMPORTANT):\<newline>'',
     ''    1.  Semantic Matching : Do not just keyword match. Understand the context. For example, if the resume lists "API development" and the job requires "REST APIs", that's a strong match.\<newline>'',
     ''    2.  Scoring Logic for 'final_score' (0-100 integer):\<newline>'',
     ''        * The 'final_score' must summarize the overall quality.\<newline>'',
     ''        * **Stability Bonus**: Candidates with a longer tenure in a single job ('longest_tenure_months') are more stable and should receive a higher score. \<newline>'',
     ''        * **Geographic Diversity Bonus**: Candidates from Tier-3 cities are highly valued to promote diversity. If the candidate's location appears to be in a Tier-3 city (any city not in Tier-1 or Tier-2 lists), give them a significant bonus in the score.\<newline>'',
     ''    3.  City Tier Logic: Based on the candidate's most recent location in the resume, determine if their city tier matches the tier specified in the job description ('' @ [CHR 0x27]]\<close>

definition prompt_text_2 :: string where
  \<open>prompt_text_2 = concat
    [[CHR 0x27] @ ''). \<newline>'',
     ''        * Tier-1 Cities: '']\<close>

definition prompt_text_3 :: string where
  \<open>prompt_text_3 = concat
    ['' \<newline>'',
     ''        * Tier-2 Cities (Examples): '']\<close>

definition prompt_text_4 :: string where
  \<open>prompt_text_4 = concat
    ['' \<newline>'',
     ''        * Tier-3 Cities: All other cities. \<newline>'',
     ''\<newline>'',
     ''    **JOB DESCRIPTION:**\<newline>'',
     ''    ```json\<newline>'',
     ''    '']\<close>

definition prompt_text_5 :: string where
  \<open>prompt_text_5 = concat
    [''\<newline>'',
     ''    ```\<newline>'',
     ''\<newline>'',
     ''    **RESUME TEXT:**\<newline>'',
     ''    ```\<newline>'',
     ''    '']\<close>

definition prompt_text_6 :: string where
  \<open>prompt_text_6 = concat
    [''\<newline>'',
     ''    ```\<newline>'',
     ''\<newline>'',
     ''    **YOUR RESPONSE (must be ONLY the JSON object below):**\<newline>'',
     ''    Return a single, valid JSON object structured exactly as follows:\<newline>'',
     ''    ```json\<newline>'',
     ''    '']\<close>

definition prompt_text_7 :: string where
  \<open>prompt_text_7 = concat
    [''\<newline>'',
     ''    ```\<newline>'',
     ''    '']\<close>

text \<open>
  The function calls \<^verbatim>\<open>job_desc.get\<close> three times and \<^verbatim>\<open>json.dumps\<close> once, and formats
  the f-string; it receives the world and the trace like every function of the program.
\<close>

definition create_llm_prompt :: "env \<Rightarrow> pyval \<Rightarrow> string \<Rightarrow> trace \<Rightarrow> string result" where
  "create_llm_prompt E job_desc resume_text t =
     (case dict_get job_desc ''City_Tier'' of
        Inl e \<Rightarrow> (Inl e, t)
      | Inr city_tier \<Rightarrow>
     (case dict_get job_desc ''Tier-1_cities'' of
        Inl e \<Rightarrow> (Inl e, t)
      | Inr tier1 \<Rightarrow>
     (case dict_get job_desc ''Tier-2_cities'' of
        Inl e \<Rightarrow> (Inl e, t)
      | Inr tier2 \<Rightarrow>
     (case json_dumps 2 job_desc of
        Inl e \<Rightarrow> (Inl e, t)
      | Inr dumped \<Rightarrow>
          (Inr (prompt_text_1 @ py_str city_tier
                @ prompt_text_2 @ py_str tier1
                @ prompt_text_3 @ py_str tier2
                @ prompt_text_4 @ dumped
                @ prompt_text_5 @ resume_text
                @ prompt_text_6 @ json_format_instructions
                @ prompt_text_7), t)))))"

subsection \<open>\<^verbatim>\<open>get_analysis_from_gpt\<close>\<close>

text \<open>
  \<^verbatim>\<open>json.loads(response.choices[0].message.content)\<close>: the index may be out of range, the
  content may be \<^verbatim>\<open>None\<close>, the text may not be JSON.
\<close>

fun decode_response :: "env \<Rightarrow> string option list \<Rightarrow> exn + pyval" where
  "decode_response E [] = Inl (PyExc ''IndexError'' ''list index out of range'')"
| "decode_response E (None # choices) =
     Inl (PyExc ''TypeError'' ''the JSON object must be str, bytes or bytearray, not NoneType'')"
| "decode_response E (Some content # choices) = json_loads E content"

text \<open>
  \<^verbatim>\<open>client.chat.completions.create(...)\<close> in the client library. The program builds the
  client with \<^verbatim>\<open>OpenAI(api_key=...)\<close> and passes no \<^verbatim>\<open>max_retries\<close>, so the client has the
  default of the library, two retries: a request that fails with a retryable failure is
  sent again (after a pause) until it has been sent three times.
\<close>

definition default_max_retries :: nat where
  "default_max_retries = 2"

fun chat_completions_create ::
  "env \<Rightarrow> nat \<Rightarrow> string option \<Rightarrow> string \<Rightarrow> trace \<Rightarrow> string option list result" where
  "chat_completions_create E 0 api_key prompt t =
     (case http_post E t api_key prompt of
        Answered choices \<Rightarrow> (Inr choices, t @ [HttpRequest prompt])
      | Retryable e \<Rightarrow> (Inl e, t @ [HttpRequest prompt])
      | Fatal e \<Rightarrow> (Inl e, t @ [HttpRequest prompt]))"
| "chat_completions_create E (Suc retries) api_key prompt t =
     (case http_post E t api_key prompt of
        Answered choices \<Rightarrow> (Inr choices, t @ [HttpRequest prompt])
      | Retryable e \<Rightarrow> chat_completions_create E retries api_key prompt (t @ [HttpRequest prompt])
      | Fatal e \<Rightarrow> (Inl e, t @ [HttpRequest prompt]))"

text \<open>The body of the \<^verbatim>\<open>try\<close>: the one call of the client, then the decoding.\<close>

definition request_analysis :: "env \<Rightarrow> string option \<Rightarrow> string \<Rightarrow> trace \<Rightarrow> pyval result" where
  "request_analysis E api_key prompt t =
     (case chat_completions_create E default_max_retries api_key prompt
             (t @ [ChatCreate prompt]) of
        (Inl e, t') \<Rightarrow> (Inl e, t')
      | (Inr choices, t') \<Rightarrow> (decode_response E choices, t'))"

definition get_analysis_from_gpt :: "env \<Rightarrow> string \<Rightarrow> trace \<Rightarrow> pyval result" where
  "get_analysis_from_gpt E prompt t =
     (case load_dotenv E t of
        Some e \<Rightarrow> (Inl e, t @ [LoadDotenv])
      | None \<Rightarrow>
          (case openai_client E (os_getenv E (t @ [LoadDotenv]) ''OPENAI_API_KEY'') of
             Some e \<Rightarrow> (Inl e, t @ [LoadDotenv])
           | None \<Rightarrow>
               (case request_analysis E (os_getenv E (t @ [LoadDotenv]) ''OPENAI_API_KEY'')
                       prompt (t @ [LoadDotenv]) of
                  (Inl e, t') \<Rightarrow>
                    (case print_line E (''An error occurred with the API call: '' @ exc_str e) t' of
                       (Inl e', t'') \<Rightarrow> (Inl e', t'')
                     | (Inr u, t'') \<Rightarrow> (Inr PNone, t''))
                | (Inr v, t') \<Rightarrow> (Inr v, t'))))"

subsection \<open>\<^verbatim>\<open>process_resumes_in_batch\<close>\<close>

definition eligible :: "string \<Rightarrow> bool" where
  "eligible filename = (endswith filename ''.pdf'' \<or> endswith filename ''.txt'')"

text \<open>
  \<^verbatim>\<open>with open(report_filepath, 'w') as report_file: json.dump(analysis_result, report_file, indent=4)\<close>
\<close>

definition write_report :: "env \<Rightarrow> string \<Rightarrow> pyval \<Rightarrow> trace \<Rightarrow> unit result" where
  "write_report E report_filepath analysis_result t =
     (case open_write E t report_filepath of
        Some e \<Rightarrow> (Inl e, t @ [OpenWrite report_filepath])
      | None \<Rightarrow>
          (case json_dumps 4 analysis_result of
             Inl e \<Rightarrow> (Inl e, t @ [OpenWrite report_filepath])
           | Inr content \<Rightarrow>
               (case file_write E (t @ [OpenWrite report_filepath]) report_filepath content of
                  Some e \<Rightarrow> (Inl e, t @ [OpenWrite report_filepath])
                | None \<Rightarrow>
                    (Inr (), t @ [OpenWrite report_filepath, Dumped report_filepath content]))))"

text \<open>The branch \<^verbatim>\<open>if analysis_result:\<close> of the loop body.\<close>

definition save_report :: "env \<Rightarrow> string \<Rightarrow> string \<Rightarrow> pyval \<Rightarrow> trace \<Rightarrow> unit result" where
  "save_report E reports_folder filename analysis_result t =
     (if truthy analysis_result then
        (case setitem analysis_result ''candidate_name'' (PStr (splitext_root filename)) of
           Inl e \<Rightarrow> (Inl e, t)
         | Inr report \<Rightarrow>
             (case write_report E
                     (path_join reports_folder (splitext_root filename @ ''_report.json''))
                     report t of
                (Inl e, t') \<Rightarrow> (Inl e, t')
              | (Inr u, t') \<Rightarrow>
                  print_line E (''Successfully generated report for '' @ filename) t'))
      else print_line E (''Failed to get analysis for '' @ filename @ ''.'') t)"

text \<open>The body of the \<^verbatim>\<open>try\<close> of the loop; \<^verbatim>\<open>continue\<close> ends it normally.\<close>

definition analyse_file ::
  "env \<Rightarrow> pyval \<Rightarrow> string \<Rightarrow> string \<Rightarrow> string \<Rightarrow> trace \<Rightarrow> unit result" where
  "analyse_file E job_desc reports_folder filename filepath t =
     (case extract_text_from_resume E filepath t of
        (Inl e, t1) \<Rightarrow> (Inl e, t1)
      | (Inr resume_text, t1) \<Rightarrow>
          (if resume_text = [] \<or> isspace resume_text then
             print_line E (''Could not extract text from '' @ filename @ ''. Skipping.'') t1
           else
             (case create_llm_prompt E job_desc resume_text t1 of
                (Inl e, t1') \<Rightarrow> (Inl e, t1')
              | (Inr prompt, t1') \<Rightarrow>
                  (case get_analysis_from_gpt E prompt t1' of
                     (Inl e, t2) \<Rightarrow> (Inl e, t2)
                   | (Inr analysis_result, t2) \<Rightarrow>
                       save_report E reports_folder filename analysis_result t2))))"

text \<open>
  One iteration of the loop: the extension filter, the progress line, which is printed
  before the \<^verbatim>\<open>try\<close>, and the \<^verbatim>\<open>try\<close> with its handler, which prints a line too.
\<close>

definition process_file ::
  "env \<Rightarrow> pyval \<Rightarrow> string \<Rightarrow> string \<Rightarrow> string \<Rightarrow> trace \<Rightarrow> unit result" where
  "process_file E job_desc resumes_folder reports_folder filename t =
     (if eligible filename then
        (case print_line E (''Processing '' @ filename @ ''...'') t of
           (Inl e, t0) \<Rightarrow> (Inl e, t0)
         | (Inr u, t0) \<Rightarrow>
             (case analyse_file E job_desc reports_folder filename
                     (path_join resumes_folder filename) t0 of
                (Inl e, t') \<Rightarrow>
                  print_line E (''An error occurred while processing '' @ filename @ '': ''
                                @ exc_str e) t'
              | (Inr u', t') \<Rightarrow> (Inr (), t')))
      else (Inr (), t))"

text \<open>The \<^verbatim>\<open>for\<close> loop: an exception that leaves an iteration ends the loop.\<close>

fun process_files ::
  "env \<Rightarrow> pyval \<Rightarrow> string \<Rightarrow> string \<Rightarrow> string list \<Rightarrow> trace \<Rightarrow> unit result" where
  "process_files E job_desc resumes_folder reports_folder [] t = (Inr (), t)"
| "process_files E job_desc resumes_folder reports_folder (filename # filenames) t =
     (case process_file E job_desc resumes_folder reports_folder filename t of
        (Inl e, t') \<Rightarrow> (Inl e, t')
      | (Inr u, t') \<Rightarrow> process_files E job_desc resumes_folder reports_folder filenames t')"

text \<open>\<^verbatim>\<open>if not os.path.exists(reports_folder): os.makedirs(reports_folder)\<close>\<close>

definition ensure_reports_folder :: "env \<Rightarrow> string \<Rightarrow> trace \<Rightarrow> unit result" where
  "ensure_reports_folder E reports_folder t =
     (if os_path_exists E t reports_folder then (Inr (), t)
      else (case os_makedirs E t reports_folder of
              Some e \<Rightarrow> (Inl e, t @ [MakeDirs reports_folder])
            | None \<Rightarrow> (Inr (), t @ [MakeDirs reports_folder])))"

definition process_resumes_in_batch ::
  "env \<Rightarrow> pyval \<Rightarrow> string \<Rightarrow> string \<Rightarrow> trace \<Rightarrow> unit result" where
  "process_resumes_in_batch E job_desc resumes_folder reports_folder t =
     (case ensure_reports_folder E reports_folder t of
        (Inl e, t1) \<Rightarrow> (Inl e, t1)
      | (Inr u, t1) \<Rightarrow>
          (case os_listdir E t1 resumes_folder of
             Inl e \<Rightarrow> (Inl e, t1 @ [ListDir resumes_folder])
           | Inr filenames \<Rightarrow>
               process_files E job_desc resumes_folder reports_folder filenames
                 (t1 @ [ListDir resumes_folder])))"

subsection \<open>The main program\<close>

definition tier1_cities :: pyval where
  "tier1_cities =
     PList [PStr ''Chennai'', PStr ''Bangalore'', PStr ''Delhi'', PStr ''Hyderabad'',
            PStr ''Kolkata'', PStr ''Mumbai'']"

definition tier2_cities :: pyval where
  "tier2_cities = PList [PStr ''Coimbatore'', PStr ''Trichy'', PStr ''Madurai'']"

definition main :: "env \<Rightarrow> trace \<Rightarrow> unit result" where
  "main E t =
     (case print_line E ''Starting NexResume Semantic Matcher...'' t of
        (Inl e, t0) \<Rightarrow> (Inl e, t0)
      | (Inr u, t0) \<Rightarrow>
     (case load_job_description E ''job_description.yml'' t0 of
        (Inl e, t1) \<Rightarrow> (Inl e, t1)
      | (Inr job_description, t1) \<Rightarrow>
          (case setitem job_description ''Tier-1_cities'' tier1_cities of
             Inl e \<Rightarrow> (Inl e, t1)
           | Inr jd1 \<Rightarrow>
               (case setitem jd1 ''Tier-2_cities'' tier2_cities of
                  Inl e \<Rightarrow> (Inl e, t1)
                | Inr jd2 \<Rightarrow>
                    (case process_resumes_in_batch E jd2 ''resumes/'' ''reports/'' t1 of
                       (Inl e, t2) \<Rightarrow> (Inl e, t2)
                     | (Inr u', t2) \<Rightarrow>
                         print_line E (''Processing complete. Reports are saved in the ''
                                       @ [CHR 0x27] @ ''reports/'' @ [CHR 0x27]
                                       @ '' folder.'') t2)))))"

section \<open>Vocabulary of the statements\<close>

text \<open>The path of the report of a resume file.\<close>

abbreviation report_path :: "string \<Rightarrow> string \<Rightarrow> string" where
  "report_path reports_folder filename \<equiv>
     path_join reports_folder (splitext_root filename @ ''_report.json'')"

text \<open>
  \<open>report_due E job_desc resumes_folder reports_folder filename t content\<close>: in the world
  \<open>E\<close>, after the trace \<open>t\<close>, every step of the processing of \<open>filename\<close> succeeds and
  ends with \<open>content\<close> written to the report file: the progress line is printed, the
  extraction returns a text that is neither empty nor blank, the prompt is built, the analysis returns a true value that
  takes the candidate name, the report file opens, the report is serialised and written.
\<close>

definition report_due ::
  "env \<Rightarrow> pyval \<Rightarrow> string \<Rightarrow> string \<Rightarrow> string \<Rightarrow> trace \<Rightarrow> string \<Rightarrow> bool" where
  "report_due E job_desc resumes_folder reports_folder filename t content =
     (\<exists>resume_text t1 prompt analysis_result t2 report.
        stdout_write E t (''Processing '' @ filename @ ''...'') = None
        \<and> extract_text_from_resume E (path_join resumes_folder filename)
          (t @ [Printed (''Processing '' @ filename @ ''...'')]) = (Inr resume_text, t1)
        \<and> resume_text \<noteq> [] \<and> \<not> isspace resume_text
        \<and> create_llm_prompt E job_desc resume_text t1 = (Inr prompt, t1)
        \<and> get_analysis_from_gpt E prompt t1 = (Inr analysis_result, t2)
        \<and> truthy analysis_result
        \<and> setitem analysis_result ''candidate_name'' (PStr (splitext_root filename)) = Inr report
        \<and> open_write E t2 (report_path reports_folder filename) = None
        \<and> json_dumps 4 report = Inr content
        \<and> file_write E (t2 @ [OpenWrite (report_path reports_folder filename)])
             (report_path reports_folder filename) content = None)"

section \<open>A concrete run\<close>

text \<open>
  A small world on which the program can be evaluated: a resumes folder with a text
  resume, a blank one, a three-page PDF whose second page has no text, a file of another
  kind and a name whose file cannot be opened; outside the listing, a PDF whose second
  page cannot be read; an endpoint that answers every prompt with the same analysis; a
  standard output that takes every line.
\<close>

definition demo_job :: pyval where
  "demo_job = PDict [(''role'', PStr ''Java Developer''), (''City_Tier'', PStr ''Tier-1'')]"

definition demo_analysis :: pyval where
  "demo_analysis = PDict [(''match_score'', PFloat ''82.0''), (''final_score'', PInt 85)]"

text \<open>A job description with a date, as YAML reads \<^verbatim>\<open>posted: 2024-05-01\<close>.\<close>

definition dated_job :: pyval where
  "dated_job =
     PDict [(''role'', PStr ''Java Developer''),
            (''posted'', PObj ''datetime.date'' ''2024-05-01'' ''datetime.date(2024, 5, 1)'')]"

definition not_found :: "string \<Rightarrow> exn" where
  "not_found p = PyExc ''FileNotFoundError'' (''[Errno 2] No such file or directory: '' @ repr_str p)"

definition no_api_key :: exn where
  "no_api_key =
     PyExc ''OpenAIError''
       (''The api_key client option must be set either by passing api_key to the client ''
        @ ''or by setting the OPENAI_API_KEY environment variable'')"

definition demo_env :: env where
  "demo_env =
     \<lparr> os_path_exists = (\<lambda>t p. False),
       os_makedirs = (\<lambda>t p. None),
       os_listdir = (\<lambda>t p.
         if p = ''resumes/''
         then Inr [''gone.txt'', ''alice.txt'', ''blank.txt'', ''bob.pdf'', ''notes.md'']
         else Inl (not_found p)),
       open_read = (\<lambda>t p.
         if p = ''job_description.yml'' then Inr ''role: Java Developer''
         else if p = ''resumes/alice.txt'' then Inr ''5 years Java experience, Chennai''
         else if p = ''resumes/blank.txt'' then Inr '' \<newline> ''
         else if p = ''resumes/bob.pdf'' then Inr ''%PDF-1.4''
         else if p = ''resumes/scan.pdf'' then Inr ''%PDF-1.7''
         else Inl (not_found p)),
       pdf_reader = (\<lambda>d.
         if d = ''%PDF-1.7''
         then Inr [Inr (Some ''Carol''),
                   Inl (PyExc ''PdfStreamError'' ''Stream has ended unexpectedly''),
                   Inr (Some ''Go'')]
         else Inr [Inr (Some ''Bob, ''), Inr None, Inr (Some ''Python'')]),
       read_text = (\<lambda>d. Inr d),
       yaml_safe_load = (\<lambda>d. Inr demo_job),
       load_dotenv = (\<lambda>t. None),
       os_getenv = (\<lambda>t k. if k = ''OPENAI_API_KEY'' then Some ''sk-demo'' else None),
       openai_client = (\<lambda>k. case k of None \<Rightarrow> Some no_api_key | Some key \<Rightarrow> None),
       http_post = (\<lambda>t k p. Answered [Some ''{\"match_score\": 82.0, \"final_score\": 85}'']),
       json_loads = (\<lambda>s. Inr demo_analysis),
       open_write = (\<lambda>t p. None),
       file_write = (\<lambda>t p c. None),
       stdout_write = (\<lambda>t line. None) \<rparr>"

text \<open>The text of the resume \<^verbatim>\<open>alice.txt\<close>, and the prompt built from it in that world.\<close>

definition alice_text :: string where
  "alice_text = ''5 years Java experience, Chennai''"

definition alice_prompt :: string where
  "alice_prompt = projr (fst (create_llm_prompt demo_env demo_job alice_text []))"

text \<open>The same world without an API key in the environment.\<close>

definition env_no_key :: env where
  "env_no_key = demo_env \<lparr> os_getenv := (\<lambda>t k. None) \<rparr>"

text \<open>The same world without a resumes folder.\<close>

definition env_no_resumes :: env where
  "env_no_resumes = demo_env \<lparr> os_listdir := (\<lambda>t p. Inl (not_found p)) \<rparr>"

text \<open>The same world with a reports folder that cannot be created.\<close>

definition env_no_makedirs :: env where
  "env_no_makedirs =
     demo_env \<lparr> os_makedirs := (\<lambda>t p. Some (PyExc ''PermissionError'' ''[Errno 13] Permission denied'')) \<rparr>"

text \<open>The same world with a reports folder that cannot be written to.\<close>

definition env_read_only :: env where
  "env_read_only =
     demo_env \<lparr> open_write := (\<lambda>t p. Some (PyExc ''PermissionError'' ''[Errno 13] Permission denied'')) \<rparr>"

text \<open>The same world with an endpoint that answers with the empty JSON object.\<close>

definition env_empty_answer :: env where
  "env_empty_answer = demo_env \<lparr> json_loads := (\<lambda>s. Inr (PDict [])) \<rparr>"

text \<open>The same world with an endpoint that cannot be reached.\<close>

definition env_offline :: env where
  "env_offline =
     demo_env \<lparr> http_post := (\<lambda>t k p. Retryable (PyExc ''APIConnectionError'' ''Connection error.'')) \<rparr>"

text \<open>The same world with an endpoint that is reached at the second request only.\<close>

definition env_flaky :: env where
  "env_flaky =
     demo_env \<lparr> http_post := (\<lambda>t k p.
       if http_requests t = []
       then Retryable (PyExc ''APIConnectionError'' ''Connection error.'')
       else Answered [Some ''{\"match_score\": 82.0, \"final_score\": 85}'']) \<rparr>"

text \<open>The same world with an endpoint that rejects the key.\<close>

definition env_unauthorized :: env where
  "env_unauthorized =
     demo_env \<lparr> http_post := (\<lambda>t k p.
       Fatal (PyExc ''AuthenticationError'' ''Error code: 401 - Incorrect API key provided'')) \<rparr>"

text \<open>
  The same world with a job description file that is empty, for which \<^verbatim>\<open>yaml.safe_load\<close>
  returns \<^verbatim>\<open>None\<close>.
\<close>

definition env_empty_config :: env where
  "env_empty_config = demo_env \<lparr> yaml_safe_load := (\<lambda>d. Inr PNone) \<rparr>"

text \<open>
  The same world with a resume whose name has the character 233 (e with an acute accent)
  twice, and a standard output whose encoding is ASCII.
\<close>

definition accented_name :: string where
  "accented_name = ''r'' @ [CHR 0xE9] @ ''sum'' @ [CHR 0xE9] @ ''.txt''"

definition ascii_encode_error :: exn where
  "ascii_encode_error =
     PyExc ''UnicodeEncodeError''
       ([CHR 0x27] @ ''ascii'' @ [CHR 0x27] @ '' codec can'' @ [CHR 0x27]
        @ ''t encode character '' @ [CHR 0x27, CHR 0x5C] @ ''xe9'' @ [CHR 0x27]
        @ '' in position 12: ordinal not in range(128)'')"

definition env_ascii_stdout :: env where
  "env_ascii_stdout =
     demo_env \<lparr> os_listdir := (\<lambda>t p. Inr [accented_name, ''alice.txt'']),
                stdout_write := (\<lambda>t line.
                  if list_all (\<lambda>c. (of_char c :: nat) < 128) line then None
                  else Some ascii_encode_error) \<rparr>"

text \<open>
  The same world with a standard output that is a pipe whose reader takes two lines and
  closes it.
\<close>

definition env_stdout_closed :: env where
  "env_stdout_closed =
     demo_env \<lparr> stdout_write := (\<lambda>t line.
       if length (printed t) < 2 then None
       else Some (PyExc ''BrokenPipeError'' ''[Errno 32] Broken pipe'')) \<rparr>"

text \<open>The same world with an endpoint whose analysis has a list of skills.\<close>

definition skills_analysis :: pyval where
  "skills_analysis =
     PDict [(''matched_required_skills'', PList [PStr ''Java'', PStr ''SQL'']),
            (''match_score'', PFloat ''82.0''), (''final_score'', PInt 85)]"

definition env_skills :: env where
  "env_skills = demo_env \<lparr> json_loads := (\<lambda>s. Inr skills_analysis) \<rparr>"

section \<open>Traces only grow\<close>

lemma reports_written_append:
  "reports_written (t @ u) = reports_written t @ reports_written u"
  by (induction t rule: reports_written.induct) simp_all

lemma chat_calls_append: "chat_calls (t @ u) = chat_calls t @ chat_calls u"
  by (induction t rule: chat_calls.induct) simp_all

lemma http_requests_append: "http_requests (t @ u) = http_requests t @ http_requests u"
  by (induction t rule: http_requests.induct) simp_all

lemma files_opened_append: "files_opened (t @ u) = files_opened t @ files_opened u"
  by (induction t rule: files_opened.induct) simp_all

lemma printed_append: "printed (t @ u) = printed t @ printed u"
  by (induction t rule: printed.induct) simp_all

lemma replicate_http_requests:
  "reports_written (replicate m (HttpRequest p)) = []"
  "chat_calls (replicate m (HttpRequest p)) = []"
  "files_opened (replicate m (HttpRequest p)) = []"
  "printed (replicate m (HttpRequest p)) = []"
  "http_requests (replicate m (HttpRequest p)) = replicate m p"
  by (induction m) simp_all



lemma print_line_cases:
  "print_line E line t = (r, t') \<Longrightarrow>
     (stdout_write E t line = None \<and> r = Inr () \<and> t' = t @ [Printed line])
     \<or> (\<exists>e. stdout_write E t line = Some e \<and> r = Inl e \<and> t' = t)"
  by (auto simp: print_line_def split: option.splits)

lemma print_line_reports:
  "print_line E line t = (r, t') \<Longrightarrow> reports_written t' = reports_written t"
  by (auto dest!: print_line_cases simp: reports_written_append)

lemma print_line_files:
  "print_line E line t = (r, t') \<Longrightarrow> files_opened t' = files_opened t"
  by (auto dest!: print_line_cases simp: files_opened_append)

lemma print_line_extends: "print_line E line t = (r, t') \<Longrightarrow> \<exists>u. t' = t @ u"
  by (auto dest!: print_line_cases)

lemma extract_text_extends:
  "extract_text_from_resume E p t = (r, t') \<Longrightarrow> \<exists>u. t' = t @ u \<and> reports_written u = []"
  by (auto simp: extract_text_from_resume_def split: if_splits sum.splits)

lemma extract_text_reports:
  "extract_text_from_resume E p t = (r, t') \<Longrightarrow> reports_written t' = reports_written t"
  by (auto dest!: extract_text_extends simp: reports_written_append)

lemma create_llm_prompt_trace: "snd (create_llm_prompt E job_desc resume_text t) = t"
  by (simp add: create_llm_prompt_def split: sum.splits)

text \<open>
  One call of the client sends at least one request and at most one more than it has
  retries, and leaves nothing else in the trace.
\<close>

lemma chat_completions_create_requests:
  "chat_completions_create E retries api_key prompt t = (r, t') \<Longrightarrow>
     \<exists>m. 1 \<le> m \<and> m \<le> Suc retries \<and> t' = t @ replicate m (HttpRequest prompt)"
proof (induction retries arbitrary: t)
  case 0
  then have "t' = t @ replicate 1 (HttpRequest prompt)"
    by (auto split: http_outcome.splits)
  then show ?case
    by (intro exI [of _ 1]) simp
next
  case (Suc n)
  show ?case
  proof (cases "http_post E t api_key prompt")
    case (Retryable e)
    with Suc.prems
    have "chat_completions_create E n api_key prompt (t @ [HttpRequest prompt]) = (r, t')"
      by simp
    from Suc.IH [OF this] obtain m where m: "1 \<le> m" "m \<le> Suc n"
      and t': "t' = (t @ [HttpRequest prompt]) @ replicate m (HttpRequest prompt)"
      by blast
    from t' have "t' = t @ replicate (Suc m) (HttpRequest prompt)"
      by simp
    with m show ?thesis
      by (intro exI [of _ "Suc m"]) simp
  next
    case (Answered choices)
    with Suc.prems have "t' = t @ replicate 1 (HttpRequest prompt)"
      by auto
    then show ?thesis
      by (intro exI [of _ 1]) simp
  next
    case (Fatal e)
    with Suc.prems have "t' = t @ replicate 1 (HttpRequest prompt)"
      by auto
    then show ?thesis
      by (intro exI [of _ 1]) simp
  qed
qed

lemma request_analysis_requests:
  assumes "request_analysis E api_key prompt t = (r, t')"
  shows "\<exists>m. 1 \<le> m \<and> m \<le> Suc default_max_retries
           \<and> t' = t @ ChatCreate prompt # replicate m (HttpRequest prompt)"
proof -
  obtain r0 t0 where c: "chat_completions_create E default_max_retries api_key prompt
      (t @ [ChatCreate prompt]) = (r0, t0)"
    by force
  from chat_completions_create_requests [OF c] obtain m
    where "1 \<le> m" "m \<le> Suc default_max_retries"
      and "t0 = (t @ [ChatCreate prompt]) @ replicate m (HttpRequest prompt)"
    by blast
  moreover have "t' = t0"
    using assms c by (auto simp: request_analysis_def split: sum.splits)
  ultimately show ?thesis
    by auto
qed

lemma get_analysis_extends:
  assumes "get_analysis_from_gpt E prompt t = (r, t')"
  shows "\<exists>u. t' = t @ u \<and> reports_written u = [] \<and> files_opened u = []"
proof (cases "load_dotenv E t")
  case (Some e)
  with assms have "t' = t @ [LoadDotenv]"
    by (simp add: get_analysis_from_gpt_def)
  then show ?thesis by simp
next
  case None
  show ?thesis
  proof (cases "openai_client E (os_getenv E (t @ [LoadDotenv]) ''OPENAI_API_KEY'')")
    case (Some e)
    with assms None have "t' = t @ [LoadDotenv]"
      by (simp add: get_analysis_from_gpt_def)
    then show ?thesis by simp
  next
    case client: None
    obtain r0 t0 where q: "request_analysis E (os_getenv E (t @ [LoadDotenv]) ''OPENAI_API_KEY'')
        prompt (t @ [LoadDotenv]) = (r0, t0)"
      by force
    from request_analysis_requests [OF q] obtain m
      where t0: "t0 = t @ LoadDotenv # ChatCreate prompt # replicate m (HttpRequest prompt)"
      by auto
    have "t' = t0 \<or> (\<exists>line. t' = t0 @ [Printed line])"
      using assms None client q
      by (auto simp: get_analysis_from_gpt_def split: sum.splits prod.splits
            dest!: print_line_cases)
    with t0 show ?thesis
      by (auto simp: replicate_http_requests reports_written_append files_opened_append)
  qed
qed

lemma get_analysis_reports:
  "get_analysis_from_gpt E prompt t = (r, t') \<Longrightarrow> reports_written t' = reports_written t"
  by (auto dest!: get_analysis_extends simp: reports_written_append)

lemma get_analysis_files:
  "get_analysis_from_gpt E prompt t = (r, t') \<Longrightarrow> files_opened t' = files_opened t"
  by (auto dest!: get_analysis_extends simp: files_opened_append)

section \<open>The text extractor\<close>

lemma extract_pages_all_return:
  "\<forall>p \<in> set pages. \<exists>r. p = Inr r \<Longrightarrow>
   extract_pages pages acc
     = Inr (acc @ concat (map (\<lambda>p. case p of Inl e \<Rightarrow> [] | Inr None \<Rightarrow> [] | Inr (Some s) \<Rightarrow> s)
                            pages))"
proof (induction pages arbitrary: acc)
  case Nil
  show ?case by simp
next
  case (Cons p pages)
  from Cons.prems obtain r where p: "p = Inr r"
    by auto
  from Cons.prems have "\<forall>q \<in> set pages. \<exists>r. q = Inr r"
    by simp
  from Cons.IH [OF this, of "acc @ or_empty r"] p show ?case
    by (cases r) simp_all
qed

lemma extract_pages_raises:
  "extract_pages (map Inr rs @ Inl e # rest) acc = Inl e"
  by (induction rs arbitrary: acc) simp_all

text \<open>
  Claim C6. For a path that ends in \<^verbatim>\<open>.pdf\<close> whose file opens and parses into pages: when
  every page returns from \<^verbatim>\<open>extract_text\<close>, the extractor opens the file once and returns
  the texts of the pages concatenated in page order, where a page with a text contributes
  that text and a page that returns \<^verbatim>\<open>None\<close> or the empty string contributes the empty
  string and no error. Only a page whose \<^verbatim>\<open>extract_text\<close> itself raises makes the
  extractor raise, with the exception of the first such page.
\<close>

theorem extract_text_pdf_concatenates_pages:
  assumes "endswith filepath ''.pdf''"
    and "open_read E t filepath = Inr data"
    and "pdf_reader E data = Inr pages"
  shows "((\<forall>p \<in> set pages. \<exists>r. p = Inr r)
           \<longrightarrow> extract_text_from_resume E filepath t
               = (Inr (concat (map (\<lambda>p. case p of Inl e \<Rightarrow> [] | Inr None \<Rightarrow> []
                                          | Inr (Some s) \<Rightarrow> s) pages)),
                  t @ [OpenRead filepath]))
         \<and> (pages = map Inr rs @ Inl e # rest
           \<longrightarrow> extract_text_from_resume E filepath t = (Inl e, t @ [OpenRead filepath]))"
  using assms extract_pages_all_return [of pages "[]"] extract_pages_raises [of rs e rest "[]"]
  by (simp add: extract_text_from_resume_def)

theorem extract_text_pdf_concatenates_pages_witness:
  "endswith ''resumes/bob.pdf'' ''.pdf''
   \<and> open_read demo_env [] ''resumes/bob.pdf'' = Inr ''%PDF-1.4''
   \<and> pdf_reader demo_env ''%PDF-1.4'' = Inr [Inr (Some ''Bob, ''), Inr None, Inr (Some ''Python'')]
   \<and> extract_text_from_resume demo_env ''resumes/bob.pdf'' []
       = (Inr ''Bob, Python'', [OpenRead ''resumes/bob.pdf''])
   \<and> endswith ''resumes/scan.pdf'' ''.pdf''
   \<and> open_read demo_env [] ''resumes/scan.pdf'' = Inr ''%PDF-1.7''
   \<and> pdf_reader demo_env ''%PDF-1.7''
       = Inr (map Inr [Some ''Carol'']
              @ Inl (PyExc ''PdfStreamError'' ''Stream has ended unexpectedly'')
              # [Inr (Some ''Go'')])
   \<and> extract_text_from_resume demo_env ''resumes/scan.pdf'' []
       = (Inl (PyExc ''PdfStreamError'' ''Stream has ended unexpectedly''),
          [OpenRead ''resumes/scan.pdf''])"
proof -
  have b1: "endswith ''resumes/bob.pdf'' ''.pdf''"
    and s1: "endswith ''resumes/scan.pdf'' ''.pdf''"
    by (simp_all add: endswith_def)
  have b2: "open_read demo_env [] ''resumes/bob.pdf'' = Inr ''%PDF-1.4''"
    and s2: "open_read demo_env [] ''resumes/scan.pdf'' = Inr ''%PDF-1.7''"
    by (simp_all add: demo_env_def)
  have b3: "pdf_reader demo_env ''%PDF-1.4''
      = Inr [Inr (Some ''Bob, ''), Inr None, Inr (Some ''Python'')]"
    by (simp add: demo_env_def)
  have s3: "pdf_reader demo_env ''%PDF-1.7''
      = Inr [Inr (Some ''Carol''),
             Inl (PyExc ''PdfStreamError'' ''Stream has ended unexpectedly''),
             Inr (Some ''Go'')]"
    by (simp add: demo_env_def)
  have a1: "extract_text_from_resume demo_env ''resumes/bob.pdf'' []
       = (Inr ''Bob, Python'', [OpenRead ''resumes/bob.pdf''])"
    using extract_text_pdf_concatenates_pages
      [OF b1 b2 b3, of "[]" "PyExc ''PdfStreamError'' ''Stream has ended unexpectedly''" "[]"]
    by simp
  have a2: "extract_text_from_resume demo_env ''resumes/scan.pdf'' []
       = (Inl (PyExc ''PdfStreamError'' ''Stream has ended unexpectedly''),
          [OpenRead ''resumes/scan.pdf''])"
    using extract_text_pdf_concatenates_pages
      [OF s1 s2 s3, of "[Some ''Carol'']"
         "PyExc ''PdfStreamError'' ''Stream has ended unexpectedly''" "[Inr (Some ''Go'')]"]
    by simp
  show ?thesis
    using b1 b2 b3 s1 s2 s3 a1 a2 by simp
qed

text \<open>
  Claim C9. For a path that ends neither in \<^verbatim>\<open>.pdf\<close> nor in \<^verbatim>\<open>.txt\<close>, the extractor
  returns the empty string and leaves the trace as it was: no file is opened or read,
  whatever the world.
\<close>

theorem extract_text_other_extension:
  "\<not> endswith filepath ''.pdf'' \<Longrightarrow> \<not> endswith filepath ''.txt'' \<Longrightarrow>
   extract_text_from_resume E filepath t = (Inr [], t)"
  by (simp add: extract_text_from_resume_def)

theorem extract_text_other_extension_witness:
  "\<not> endswith ''resumes/notes.md'' ''.pdf'' \<and> \<not> endswith ''resumes/notes.md'' ''.txt''
   \<and> extract_text_from_resume demo_env ''resumes/notes.md'' [] = (Inr [], [])
   \<and> files_opened (snd (extract_text_from_resume demo_env ''resumes/notes.md'' [])) = []"
  using extract_text_other_extension [of "''resumes/notes.md''" demo_env "[]"]
  by (simp add: endswith_def)

section \<open>The batch orchestrator: one file\<close>



text \<open>
  Claim C10. When the analysis of an eligible file with a non-blank text returns a value
  that is false (\<^verbatim>\<open>None\<close>, the sentinel of a failed call, but also the empty JSON object,
  \<^verbatim>\<open>0\<close>, the empty string and so on), the iteration ends with the line that reports a
  failed analysis, whichever false value it was: no candidate name is attached, no
  report file is opened and no report is written. (The progress line and the line of the
  failed analysis are taken to be printed.)
\<close>

theorem falsy_analysis_is_failure:
  assumes "eligible filename"
    and "stdout_write E t (''Processing '' @ filename @ ''...'') = None"
    and "extract_text_from_resume E (path_join resumes_folder filename)
           (t @ [Printed (''Processing '' @ filename @ ''...'')]) = (Inr resume_text, t1)"
    and "resume_text \<noteq> []" and "\<not> isspace resume_text"
    and "create_llm_prompt E job_desc resume_text t1 = (Inr prompt, t1)"
    and "get_analysis_from_gpt E prompt t1 = (Inr analysis_result, t2)"
    and "\<not> truthy analysis_result"
    and "stdout_write E t2 (''Failed to get analysis for '' @ filename @ ''.'') = None"
  shows "process_file E job_desc resumes_folder reports_folder filename t
           = (Inr (), t2 @ [Printed (''Failed to get analysis for '' @ filename @ ''.'')])
         \<and> reports_written (snd (process_file E job_desc resumes_folder reports_folder filename t))
           = reports_written t
         \<and> files_opened (snd (process_file E job_desc resumes_folder reports_folder filename t))
           = files_opened t1
         \<and> \<not> truthy PNone \<and> \<not> truthy (PDict [])"
proof -
  have p: "process_file E job_desc resumes_folder reports_folder filename t
           = (Inr (), t2 @ [Printed (''Failed to get analysis for '' @ filename @ ''.'')])"
    using assms by (simp add: process_file_def analyse_file_def save_report_def print_line_def)
  have "reports_written t1 = reports_written t"
    using extract_text_reports [OF assms(3)] by (simp add: reports_written_append)
  moreover have "reports_written t2 = reports_written t1"
    using assms(7) by (rule get_analysis_reports)
  moreover have "files_opened t2 = files_opened t1"
    using assms(7) by (rule get_analysis_files)
  ultimately show ?thesis
    using p by (simp add: reports_written_append files_opened_append)
qed

theorem falsy_analysis_is_failure_witness:
  "eligible ''alice.txt''
   \<and> stdout_write env_empty_answer [] (''Processing '' @ ''alice.txt'' @ ''...'') = None
   \<and> extract_text_from_resume env_empty_answer (path_join ''resumes/'' ''alice.txt'')
        ([] @ [Printed (''Processing '' @ ''alice.txt'' @ ''...'')])
       = (Inr ''5 years Java experience, Chennai'',
          [Printed ''Processing alice.txt...'', OpenRead ''resumes/alice.txt''])
   \<and> \<not> isspace ''5 years Java experience, Chennai''
   \<and> create_llm_prompt env_empty_answer demo_job ''5 years Java experience, Chennai''
        [Printed ''Processing alice.txt...'', OpenRead ''resumes/alice.txt'']
       = (Inr alice_prompt, [Printed ''Processing alice.txt...'', OpenRead ''resumes/alice.txt''])
   \<and> get_analysis_from_gpt env_empty_answer alice_prompt
        [Printed ''Processing alice.txt...'', OpenRead ''resumes/alice.txt'']
       = (Inr (PDict []),
          [Printed ''Processing alice.txt...'', OpenRead ''resumes/alice.txt'', LoadDotenv,
           ChatCreate alice_prompt, HttpRequest alice_prompt])
   \<and> \<not> truthy (PDict [])
   \<and> stdout_write env_empty_answer
        [Printed ''Processing alice.txt...'', OpenRead ''resumes/alice.txt'', LoadDotenv,
         ChatCreate alice_prompt, HttpRequest alice_prompt]
        (''Failed to get analysis for '' @ ''alice.txt'' @ ''.'') = None
   \<and> process_file env_empty_answer demo_job ''resumes/'' ''reports/'' ''alice.txt'' []
       = (Inr (),
          [Printed ''Processing alice.txt...'', OpenRead ''resumes/alice.txt'', LoadDotenv,
           ChatCreate alice_prompt, HttpRequest alice_prompt,
           Printed ''Failed to get analysis for alice.txt.''])
   \<and> reports_written
        (snd (process_file env_empty_answer demo_job ''resumes/'' ''reports/'' ''alice.txt'' []))
       = []"
proof -
  have h1: "eligible ''alice.txt''"
    by (simp add: eligible_def endswith_def)
  have h2: "stdout_write env_empty_answer [] (''Processing '' @ ''alice.txt'' @ ''...'') = None"
    by (simp add: env_empty_answer_def demo_env_def)
  have h3: "extract_text_from_resume env_empty_answer (path_join ''resumes/'' ''alice.txt'')
        ([] @ [Printed (''Processing '' @ ''alice.txt'' @ ''...'')])
       = (Inr ''5 years Java experience, Chennai'',
          [Printed ''Processing alice.txt...'', OpenRead ''resumes/alice.txt''])"
    by (simp add: extract_text_from_resume_def path_join_def endswith_def
          env_empty_answer_def demo_env_def)
  have h4: "''5 years Java experience, Chennai'' \<noteq> []"
    by simp
  have h5: "\<not> isspace ''5 years Java experience, Chennai''"
    by (simp add: isspace_def is_space_char_def)
  have h6: "create_llm_prompt env_empty_answer demo_job ''5 years Java experience, Chennai''
        [Printed ''Processing alice.txt...'', OpenRead ''resumes/alice.txt'']
       = (Inr alice_prompt, [Printed ''Processing alice.txt...'', OpenRead ''resumes/alice.txt''])"
    by (simp add: alice_prompt_def alice_text_def create_llm_prompt_def demo_job_def
          json_dumps_def)
  have h7: "get_analysis_from_gpt env_empty_answer alice_prompt
        [Printed ''Processing alice.txt...'', OpenRead ''resumes/alice.txt'']
       = (Inr (PDict []),
          [Printed ''Processing alice.txt...'', OpenRead ''resumes/alice.txt'', LoadDotenv,
           ChatCreate alice_prompt, HttpRequest alice_prompt])"
    by (simp add: get_analysis_from_gpt_def request_analysis_def default_max_retries_def
          numeral_2_eq_2 env_empty_answer_def demo_env_def)
  have h8: "\<not> truthy (PDict [])"
    by simp
  have h9: "stdout_write env_empty_answer
        [Printed ''Processing alice.txt...'', OpenRead ''resumes/alice.txt'', LoadDotenv,
         ChatCreate alice_prompt, HttpRequest alice_prompt]
        (''Failed to get analysis for '' @ ''alice.txt'' @ ''.'') = None"
    by (simp add: env_empty_answer_def demo_env_def)
  show ?thesis
    using falsy_analysis_is_failure [OF h1 h2 h3 h4 h5 h6 h7 h8 h9, of "''reports/''"]
      h1 h2 h3 h5 h6 h7 h9
    by simp
qed

section \<open>Evaluating a concrete run\<close>

lemma replicate_numeral_eval: "replicate (numeral k) x = x # replicate (pred_numeral k) x"
  by (simp add: numeral_eq_Suc)

lemma default_max_retries_eval: "default_max_retries = Suc (Suc 0)"
  by (simp add: default_max_retries_def)

lemma alice_prompt_built:
  "create_llm_prompt E demo_job ''5 years Java experience, Chennai'' t = (Inr alice_prompt, t)"
  by (simp add: alice_prompt_def alice_text_def create_llm_prompt_def demo_job_def
        json_dumps_def)

lemmas run_defs =
  process_file_def analyse_file_def save_report_def write_report_def print_line_def
  get_analysis_from_gpt_def request_analysis_def default_max_retries_eval
  extract_text_from_resume_def alice_prompt_built
  json_dumps_def eligible_def endswith_def path_join_def
  isspace_def is_space_char_def splitext_root_def json_str_def json_char_def
  json_float_def newline_indent_def int_str_def digit_char_def

section \<open>The batch orchestrator: the reports it writes\<close>

lemma save_report_reports:
  "save_report E reports_folder filename v t = (r, t') \<Longrightarrow>
     (\<exists>report c. truthy v
         \<and> setitem v ''candidate_name'' (PStr (splitext_root filename)) = Inr report
         \<and> open_write E t (report_path reports_folder filename) = None
         \<and> json_dumps 4 report = Inr c
         \<and> file_write E (t @ [OpenWrite (report_path reports_folder filename)])
              (report_path reports_folder filename) c = None
         \<and> reports_written t' = reports_written t @ [(report_path reports_folder filename, c)])
     \<or> (\<not> (\<exists>report c. truthy v
         \<and> setitem v ''candidate_name'' (PStr (splitext_root filename)) = Inr report
         \<and> open_write E t (report_path reports_folder filename) = None
         \<and> json_dumps 4 report = Inr c
         \<and> file_write E (t @ [OpenWrite (report_path reports_folder filename)])
              (report_path reports_folder filename) c = None)
         \<and> reports_written t' = reports_written t)"
  unfolding save_report_def write_report_def print_line_def
  by (auto split: if_splits sum.splits prod.splits option.splits simp: reports_written_append)

lemma analyse_file_reports:
  assumes a: "analyse_file E job_desc reports_folder filename
      (path_join resumes_folder filename)
      (t @ [Printed (''Processing '' @ filename @ ''...'')]) = (r, t')"
    and pr: "stdout_write E t (''Processing '' @ filename @ ''...'') = None"
  shows "(\<exists>c. report_due E job_desc resumes_folder reports_folder filename t c
        \<and> reports_written t' = reports_written t @ [(report_path reports_folder filename, c)])
   \<or> (\<not> (\<exists>c. report_due E job_desc resumes_folder reports_folder filename t c)
        \<and> reports_written t' = reports_written t)"
proof -
  obtain r1 t1 where e: "extract_text_from_resume E (path_join resumes_folder filename)
      (t @ [Printed (''Processing '' @ filename @ ''...'')]) = (r1, t1)"
    by force
  have w1: "reports_written t1 = reports_written t"
    using extract_text_reports [OF e] by (simp add: reports_written_append)
  show ?thesis
  proof (cases r1)
    case (Inl e1)
    with a e w1 show ?thesis
      by (simp add: analyse_file_def report_due_def)
  next
    case r1: (Inr resume_text)
    show ?thesis
    proof (cases "resume_text = [] \<or> isspace resume_text")
      case True
      with a e r1 have "print_line E
          (''Could not extract text from '' @ filename @ ''. Skipping.'') t1 = (r, t')"
        by (auto simp: analyse_file_def)
      from print_line_reports [OF this] True e w1 r1 show ?thesis
        by (auto simp: report_due_def)
    next
      case nonblank: False
      obtain r15 where c: "create_llm_prompt E job_desc resume_text t1 = (r15, t1)"
        using create_llm_prompt_trace [of E job_desc resume_text t1]
        by (cases "create_llm_prompt E job_desc resume_text t1") simp
      show ?thesis
      proof (cases r15)
        case (Inl e2)
        with a e w1 r1 nonblank c show ?thesis
          by (auto simp: analyse_file_def report_due_def)
      next
        case p: (Inr prompt)
        obtain r2 t2 where g: "get_analysis_from_gpt E prompt t1 = (r2, t2)"
          by force
        have w2: "reports_written t2 = reports_written t"
          using get_analysis_reports [OF g] w1 by simp
        show ?thesis
        proof (cases r2)
          case (Inl e3)
          with a e w2 r1 nonblank c p g show ?thesis
            by (auto simp: analyse_file_def report_due_def)
        next
          case r2: (Inr v)
          have s: "save_report E reports_folder filename v t2 = (r, t')"
            using a e r1 nonblank c p g r2 by (auto simp: analyse_file_def)
          from save_report_reports [OF s] show ?thesis
            using e r1 nonblank c p g r2 w2 pr by (auto simp: report_due_def)
        qed
      qed
    qed
  qed
qed

lemma process_file_reports:
  "(\<exists>c. eligible filename
        \<and> report_due E job_desc resumes_folder reports_folder filename t c
        \<and> reports_written (snd (process_file E job_desc resumes_folder reports_folder filename t))
            = reports_written t @ [(report_path reports_folder filename, c)])
   \<or> (\<not> (eligible filename
            \<and> (\<exists>c. report_due E job_desc resumes_folder reports_folder filename t c))
        \<and> reports_written (snd (process_file E job_desc resumes_folder reports_folder filename t))
            = reports_written t)"
proof (cases "eligible filename")
  case False
  then show ?thesis by (simp add: process_file_def)
next
  case True
  show ?thesis
  proof (cases "stdout_write E t (''Processing '' @ filename @ ''...'')")
    case (Some e)
    with True show ?thesis
      by (simp add: process_file_def print_line_def report_due_def)
  next
    case None
    obtain r t' where a: "analyse_file E job_desc reports_folder filename
        (path_join resumes_folder filename)
        (t @ [Printed (''Processing '' @ filename @ ''...'')]) = (r, t')"
      by force
    have "reports_written (snd (process_file E job_desc resumes_folder reports_folder filename t))
        = reports_written t'"
    proof (cases r)
      case (Inl e)
      obtain r3 t3 where h: "print_line E (''An error occurred while processing '' @ filename
          @ '': '' @ exc_str e) t' = (r3, t3)"
        by force
      from print_line_reports [OF h] h True None a Inl show ?thesis
        by (simp add: process_file_def print_line_def)
    next
      case (Inr u)
      with True None a show ?thesis
        by (simp add: process_file_def print_line_def)
    qed
    with analyse_file_reports [OF a None] True show ?thesis
      by auto
  qed
qed

lemma report_due_unique:
  "report_due E job_desc resumes_folder reports_folder filename t c \<Longrightarrow>
   report_due E job_desc resumes_folder reports_folder filename t c' \<Longrightarrow> c = c'"
  by (auto simp: report_due_def)

lemma process_files_reports_bound:
  "length (reports_written (snd (process_files E job_desc resumes_folder reports_folder filenames t)))
     \<le> length (reports_written t) + length (filter eligible filenames)"
proof (induction filenames arbitrary: t)
  case Nil
  show ?case by simp
next
  case (Cons f fs)
  obtain r t' where p: "process_file E job_desc resumes_folder reports_folder f t = (r, t')"
    by force
  have one: "length (reports_written t')
      \<le> length (reports_written t) + (if eligible f then 1 else 0)"
    using process_file_reports [of f E job_desc resumes_folder reports_folder t] p
    by auto
  show ?case
  proof (cases r)
    case (Inl e)
    with p one show ?thesis
      by (cases "eligible f") simp_all
  next
    case (Inr u)
    have "length (reports_written (snd (process_files E job_desc resumes_folder reports_folder fs t')))
       \<le> length (reports_written t') + length (filter eligible fs)"
      by (rule Cons.IH)
    with p one Inr show ?thesis
      by (cases "eligible f") simp_all
  qed
qed

lemma batch_reports_bound:
  "length (reports_written
             (snd (process_resumes_in_batch E job_desc resumes_folder reports_folder t)))
     \<le> length (reports_written t)
         + (case os_listdir E (snd (ensure_reports_folder E reports_folder t)) resumes_folder of
              Inl e \<Rightarrow> 0
            | Inr filenames \<Rightarrow> length (filter eligible filenames))"
proof -
  obtain r1 t1 where f: "ensure_reports_folder E reports_folder t = (r1, t1)"
    by force
  then have w: "reports_written t1 = reports_written t"
    by (auto simp: ensure_reports_folder_def reports_written_append
          split: if_splits option.splits)
  show ?thesis
  proof (cases r1)
    case (Inl e1)
    with f w show ?thesis
      by (simp add: process_resumes_in_batch_def)
  next
    case (Inr u)
    show ?thesis
    proof (cases "os_listdir E t1 resumes_folder")
      case (Inl e2)
      with f w Inr show ?thesis
        by (simp add: process_resumes_in_batch_def reports_written_append)
    next
      case l: (Inr filenames)
      have "length (reports_written (snd (process_files E job_desc resumes_folder reports_folder
                filenames (t1 @ [ListDir resumes_folder]))))
          \<le> length (reports_written (t1 @ [ListDir resumes_folder]))
              + length (filter eligible filenames)"
        by (rule process_files_reports_bound)
      with f w Inr l show ?thesis
        by (simp add: process_resumes_in_batch_def reports_written_append)
    qed
  qed
qed

text \<open>
  Claim C2, as the code has it. The loop, and so every run of the batch, writes at most
  one report per eligible file name of the listing. The processing of a file adds exactly the report \<open>content\<close> at the report path of
  the file if and only if the file is eligible and every step succeeds (\<open>report_due\<close>): the
  progress line is printed, the extraction returns a text that is neither empty nor blank, the prompt is built, the
  analysis returns a value that is true and takes the candidate name (a non-empty
  mapping), and the report file opens, is serialised and is written. In every other case
  the processing of the file writes no report.
\<close>

theorem report_written_iff_due:
  "length (reports_written (snd (process_files E job_desc resumes_folder reports_folder filenames t)))
     \<le> length (reports_written t) + length (filter eligible filenames)
   \<and> (reports_written (snd (process_file E job_desc resumes_folder reports_folder filename t))
         = reports_written t @ [(report_path reports_folder filename, content)]
       \<longleftrightarrow> eligible filename
           \<and> report_due E job_desc resumes_folder reports_folder filename t content)
   \<and> (\<not> (eligible filename
            \<and> (\<exists>c. report_due E job_desc resumes_folder reports_folder filename t c))
       \<longrightarrow> reports_written (snd (process_file E job_desc resumes_folder reports_folder filename t))
             = reports_written t)
   \<and> length (reports_written
               (snd (process_resumes_in_batch E job_desc resumes_folder reports_folder t)))
       \<le> length (reports_written t)
           + (case os_listdir E (snd (ensure_reports_folder E reports_folder t)) resumes_folder of
                Inl e \<Rightarrow> 0
              | Inr listing \<Rightarrow> length (filter eligible listing))"
proof (intro conjI)
  show "length (reports_written
               (snd (process_resumes_in_batch E job_desc resumes_folder reports_folder t)))
       \<le> length (reports_written t)
           + (case os_listdir E (snd (ensure_reports_folder E reports_folder t)) resumes_folder of
                Inl e \<Rightarrow> 0
              | Inr listing \<Rightarrow> length (filter eligible listing))"
    by (rule batch_reports_bound)
  show "length (reports_written (snd (process_files E job_desc resumes_folder reports_folder filenames t)))
     \<le> length (reports_written t) + length (filter eligible filenames)"
    by (rule process_files_reports_bound)
  show "reports_written (snd (process_file E job_desc resumes_folder reports_folder filename t))
         = reports_written t @ [(report_path reports_folder filename, content)]
       \<longleftrightarrow> eligible filename
           \<and> report_due E job_desc resumes_folder reports_folder filename t content"
    using process_file_reports [of filename E job_desc resumes_folder reports_folder t]
    by (auto dest: report_due_unique)
  show "\<not> (eligible filename
            \<and> (\<exists>c. report_due E job_desc resumes_folder reports_folder filename t c))
       \<longrightarrow> reports_written (snd (process_file E job_desc resumes_folder reports_folder filename t))
             = reports_written t"
    using process_file_reports [of filename E job_desc resumes_folder reports_folder t]
    by auto
qed

text \<open>
  The claim as the specification words it asks only for a non-blank text and a result of
  the analysis. In a world where the reports folder cannot be written to, both hold for
  \<^verbatim>\<open>alice.txt\<close> and no report is written: the failure to open the report file is caught
  at the file's boundary.
\<close>

theorem report_written_iff_due_counterexample:
  "eligible ''alice.txt''
   \<and> fst (extract_text_from_resume env_read_only ''resumes/alice.txt''
            [Printed ''Processing alice.txt...''])
       = Inr ''5 years Java experience, Chennai''
   \<and> \<not> isspace ''5 years Java experience, Chennai''
   \<and> fst (create_llm_prompt env_read_only demo_job ''5 years Java experience, Chennai''
            [Printed ''Processing alice.txt...'', OpenRead ''resumes/alice.txt''])
       = Inr alice_prompt
   \<and> fst (get_analysis_from_gpt env_read_only alice_prompt
            [Printed ''Processing alice.txt...'', OpenRead ''resumes/alice.txt''])
       = Inr demo_analysis
   \<and> truthy demo_analysis
   \<and> reports_written
        (snd (process_file env_read_only demo_job ''resumes/'' ''reports/'' ''alice.txt'' []))
       = []"
  by (simp add: run_defs env_read_only_def demo_env_def demo_analysis_def)

theorem report_written_iff_due_witness:
  "eligible ''alice.txt''
   \<and> report_due demo_env demo_job ''resumes/'' ''reports/'' ''alice.txt'' []
        ''{\<newline>    \"match_score\": 82.0,\<newline>    \"final_score\": 85,\<newline>    \"candidate_name\": \"alice\"\<newline>}''
   \<and> reports_written
        (snd (process_file demo_env demo_job ''resumes/'' ''reports/'' ''alice.txt'' []))
       = [(''reports/alice_report.json'',
           ''{\<newline>    \"match_score\": 82.0,\<newline>    \"final_score\": 85,\<newline>    \"candidate_name\": \"alice\"\<newline>}'')]
   \<and> \<not> eligible ''notes.md''
   \<and> reports_written
        (snd (process_file demo_env demo_job ''resumes/'' ''reports/'' ''notes.md'' []))
       = []
   \<and> length (reports_written (snd (process_files demo_env demo_job ''resumes/'' ''reports/''
               [''gone.txt'', ''alice.txt'', ''notes.md''] [])))
       \<le> length (filter eligible [''gone.txt'', ''alice.txt'', ''notes.md''])"
proof -
  have run: "reports_written
        (snd (process_file demo_env demo_job ''resumes/'' ''reports/'' ''alice.txt'' []))
       = reports_written [] @ [(report_path ''reports/'' ''alice.txt'',
           ''{\<newline>    \"match_score\": 82.0,\<newline>    \"final_score\": 85,\<newline>    \"candidate_name\": \"alice\"\<newline>}'')]"
    by (simp add: run_defs nat_str.simps replicate_numeral_eval demo_env_def demo_analysis_def)
  have path: "report_path ''reports/'' ''alice.txt'' = ''reports/alice_report.json''"
    by (simp add: path_join_def splitext_root_def)
  have other: "\<not> eligible ''notes.md''"
    by (simp add: eligible_def endswith_def)
  show ?thesis
    using report_written_iff_due [of demo_env demo_job "''resumes/''" "''reports/''"
        "[''gone.txt'', ''alice.txt'', ''notes.md'']" "[]" "''alice.txt''"
        "''{\<newline>    \"match_score\": 82.0,\<newline>    \"final_score\": 85,\<newline>    \"candidate_name\": \"alice\"\<newline>}''"]
      report_written_iff_due [of demo_env demo_job "''resumes/''" "''reports/''"
        "[]" "[]" "''notes.md''" "[]"]
      run path other
    by simp
qed

end
